theory Spec2Isabelle
  imports Complex_Main "HOL-Library.Word"
begin

section \<open>Log intelligence backend: ingestion, statistics and search\<close>

text \<open>
  The program is a Flask service over a process-wide pandas table \<open>df\<close>.
  \<open>upload\<close> reads \<open>logs.tsv\<close> with \<open>pd.read_csv\<close> and derives the columns of the
  log table, \<open>stats\<close> aggregates it and \<open>search\<close> filters it.  Text is Latin-1
  (\<open>encoding='latin1'\<close>): every byte of the file is one character, so a \<open>string\<close>
  of 8-bit characters is the file content and decoding cannot fail.
\<close>

subsection \<open>Values, errors and the library\<close>

datatype py_error =
  ParserError | TypeError | ValueError | KeyError | AttributeError
  | IntCastingNaNError | ReError | OSError

text \<open>
  A finite double is written by its exact value; \<open>NaN\<close> is a cell of its own, since it
  is the missing value of every column kind.
\<close>

datatype float = Finite rat | PosInf | NegInf

text \<open>
  The cells of a table: NA, a string, a 64-bit integer, a double, a Boolean, and for
  a \<open>datetime64[ns]\<close> column the nanoseconds since the epoch or \<open>NaT\<close>.
\<close>

datatype cell = NaN | Str string | I64 int | F64 float | PyBool bool | Ts int | NaT

datatype num = NInt int | NFloat float

datatype dtype = Int64 | Float64 | BoolT | Object

type_synonym frame = "(string \<times> cell list) list"

text \<open>
  What the program takes from pandas, numpy and Python's \<open>re\<close> without fixing it in
  its own text is a parameter of the model; every theorem below holds for every
  value of it.
  \<^item> \<open>na_value\<close>: the non-empty strings that \<open>read_csv\<close> reads as NA;
  \<^item> \<open>parse_int\<close>, \<open>parse_float\<close>: the tokenizer's numeric conversions;
  \<^item> \<open>quoted_rows\<close>: the tokenizer on text with quote, carriage-return or NUL
    characters;
  \<^item> \<open>float_repr\<close>, \<open>timestamp_str\<close>: \<open>str\<close> of a double and of a timestamp;
  \<^item> \<open>float_of_int\<close>: the nearest double; \<open>float_cast\<close>: the integer cast of a finite
    double outside the 64-bit range;
  \<^item> \<open>str_to_numeric\<close>: \<open>to_numeric\<close> on one string;
  \<^item> \<open>datetime_raises\<close>, \<open>datetime_elem\<close>: \<open>to_datetime(unit='s', errors='coerce')\<close>
    on a column that is not of integers: whether it raises, and what it gives for
    one element;
  \<^item> \<open>re_compile\<close>: \<open>re.compile(q, re.IGNORECASE).search\<close> for a pattern with
    metacharacters;
  \<^item> \<open>round_pct\<close>: the double \<open>round(100.0 * e / t, 2)\<close>;
  \<^item> \<open>sort_values\<close>: the sort of \<open>value_counts\<close> by descending count.
\<close>

record lib =
  na_value :: "string \<Rightarrow> bool"
  parse_int :: "string \<Rightarrow> int option"
  parse_float :: "string \<Rightarrow> float option"
  quoted_rows :: "string \<Rightarrow> py_error + string option list list"
  float_repr :: "float \<Rightarrow> string"
  timestamp_str :: "int \<Rightarrow> string"
  float_of_int :: "int \<Rightarrow> float"
  float_cast :: "rat \<Rightarrow> int"
  str_to_numeric :: "string \<Rightarrow> num option"
  datetime_raises :: "cell list \<Rightarrow> py_error option"
  datetime_elem :: "cell \<Rightarrow> int option"
  re_compile :: "string \<Rightarrow> py_error + (string \<Rightarrow> bool)"
  round_pct :: "nat \<Rightarrow> nat \<Rightarrow> float"
  sort_values :: "(cell \<times> nat) list \<Rightarrow> (cell \<times> nat) list"

subsection \<open>Decimal numerals and \<open>str\<close>\<close>

definition digit_char :: "nat \<Rightarrow> char" where
  "digit_char n = ''0123456789'' ! n"

fun digits :: "nat \<Rightarrow> string" where
  "digits n = (if n < 10 then [digit_char n] else digits (n div 10) @ [digit_char (n mod 10)])"

definition show_int :: "int \<Rightarrow> string" where
  "show_int i = (if i < 0 then CHR ''-'' # digits (nat (- i)) else digits (nat i))"

fun py_str :: "lib \<Rightarrow> cell \<Rightarrow> string" where
  "py_str L NaN = ''nan''"
| "py_str L (Str s) = s"
| "py_str L (I64 i) = show_int i"
| "py_str L (F64 x) = float_repr L x"
| "py_str L (PyBool b) = (if b then ''True'' else ''False'')"
| "py_str L (Ts n) = timestamp_str L n"
| "py_str L NaT = ''NaT''"

subsection \<open>Lines and fields\<close>

definition TAB :: char where
  "TAB = CHR 0x09"

definition LF :: char where
  "LF = CHR 0x0A"

definition CR :: char where
  "CR = CHR 0x0D"

definition QUOTE :: char where
  "QUOTE = CHR 0x22"

definition NUL :: char where
  "NUL = CHR 0x00"

text \<open>Splitting at a delimiter: one piece more than there are delimiters.\<close>

fun split_on :: "char \<Rightarrow> string \<Rightarrow> string list" where
  "split_on d [] = [[]]"
| "split_on d (c # cs) =
     (let r = split_on d cs in if c = d then [] # r else (c # hd r) # tl r)"

text \<open>
  The lines of the file: the pieces between line feeds; a final line feed ends the
  last line and starts no new one.
\<close>

definition raw_lines :: "string \<Rightarrow> string list" where
  "raw_lines txt = (let ps = split_on LF txt in if last ps = [] then butlast ps else ps)"

definition ncols :: "string \<Rightarrow> nat" where
  "ncols l = length (split_on TAB l)"

text \<open>
  With \<open>skip_blank_lines\<close> (the default) the tokenizer passes over a line that is
  empty or holds only spaces.
\<close>

definition blank_line :: "string \<Rightarrow> bool" where
  "blank_line l = list_all (\<lambda>c. c = CHR '' '') l"

text \<open>
  The tokenizer's quoting and carriage-return states are entered only by these two
  characters, and a NUL ends the C string of a field; text without the three is
  tokenized line by line and tab by tab.
\<close>

definition plain_tsv :: "string \<Rightarrow> bool" where
  "plain_tsv txt = list_all (\<lambda>c. c \<noteq> QUOTE \<and> c \<noteq> CR \<and> c \<noteq> NUL) txt"

subsection \<open>The tokenizer's treatment of field counts\<close>

text \<open>
  \<open>read_csv(..., header=None, names=column_names, on_bad_lines='skip')\<close> with seven
  names.  The first row is tokenized with seven expected fields and is never a bad
  line; the expected count then becomes the larger of its field count and seven.
  A later line with more fields than expected is a bad line and is skipped; a line
  with fewer has its missing trailing fields closed empty (they read as NA).
\<close>

definition pad_fields :: "nat \<Rightarrow> string list \<Rightarrow> string option list" where
  "pad_fields w fs = map Some fs @ replicate (w - length fs) None"

fun later_rows :: "nat \<Rightarrow> string list \<Rightarrow> string option list list" where
  "later_rows w [] = []"
| "later_rows w (l # ls) =
     (if blank_line l then later_rows w ls
      else if w < ncols l then later_rows w ls
      else pad_fields w (split_on TAB l) # later_rows w ls)"

fun tokenize_rows :: "string list \<Rightarrow> nat \<times> string option list list" where
  "tokenize_rows [] = (7, [])"
| "tokenize_rows (l # ls) =
     (if blank_line l then tokenize_rows ls
      else (let w = max (ncols l) 7
            in (w, pad_fields w (split_on TAB l) # later_rows w ls)))"

definition expected_fields :: "string \<Rightarrow> nat" where
  "expected_fields txt = fst (tokenize_rows (raw_lines txt))"

definition accepted_rows :: "string \<Rightarrow> string option list list" where
  "accepted_rows txt = snd (tokenize_rows (raw_lines txt))"

text \<open>The lines that survive, and the lines that do not.\<close>

definition kept_lines :: "string \<Rightarrow> string list" where
  "kept_lines txt =
     filter (\<lambda>l. \<not> blank_line l \<and> ncols l \<le> expected_fields txt) (raw_lines txt)"


subsection \<open>Reading the file into a frame\<close>

text \<open>
  \<open>read_csv\<close> decides a column's kind from all of its fields (\<open>low_memory=False\<close>):
  integers when every field is an integer, doubles when every field is NA or a
  number, Booleans when every field is NA or a truth word, and strings otherwise.
  An empty field, a field closed by the tokenizer and an NA word read as NA.
\<close>

definition column_names :: "string list" where
  "column_names = [''host'', ''dash'', ''time_epoch'', ''method'', ''url'', ''status'', ''bytes'']"

definition is_na :: "lib \<Rightarrow> string option \<Rightarrow> bool" where
  "is_na L f = (case f of None \<Rightarrow> True | Some s \<Rightarrow> s = [] \<or> na_value L s)"

definition true_values :: "string list" where
  "true_values = [''True'', ''TRUE'', ''true'']"

definition false_values :: "string list" where
  "false_values = [''False'', ''FALSE'', ''false'']"

definition is_int_field :: "lib \<Rightarrow> string option \<Rightarrow> bool" where
  "is_int_field L f =
     (case f of None \<Rightarrow> False | Some s \<Rightarrow> \<not> is_na L f \<and> parse_int L s \<noteq> None)"

definition is_float_field :: "lib \<Rightarrow> string option \<Rightarrow> bool" where
  "is_float_field L f =
     (case f of None \<Rightarrow> True | Some s \<Rightarrow> is_na L f \<or> parse_float L s \<noteq> None)"

definition is_bool_field :: "lib \<Rightarrow> string option \<Rightarrow> bool" where
  "is_bool_field L f =
     (case f of None \<Rightarrow> True | Some s \<Rightarrow> is_na L f \<or> s \<in> set (true_values @ false_values))"

definition infer_dtype :: "lib \<Rightarrow> string option list \<Rightarrow> dtype" where
  "infer_dtype L fs =
     (if list_all (is_int_field L) fs then Int64
      else if list_all (is_float_field L) fs then Float64
      else if list_all (is_bool_field L) fs then BoolT
      else Object)"

fun parse_cell :: "lib \<Rightarrow> dtype \<Rightarrow> string option \<Rightarrow> cell" where
  "parse_cell L t None = NaN"
| "parse_cell L Int64 (Some s) =
     (case parse_int L s of Some i \<Rightarrow> I64 i | None \<Rightarrow> NaN)"
| "parse_cell L Float64 (Some s) =
     (if is_na L (Some s) then NaN
      else case parse_float L s of Some x \<Rightarrow> F64 x | None \<Rightarrow> NaN)"
| "parse_cell L BoolT (Some s) =
     (if is_na L (Some s) then NaN else PyBool (s \<in> set true_values))"
| "parse_cell L Object (Some s) =
     (if is_na L (Some s) then NaN else Str s)"

definition parse_column :: "lib \<Rightarrow> string option list \<Rightarrow> cell list" where
  "parse_column L fs = map (parse_cell L (infer_dtype L fs)) fs"

text \<open>
  The rows of seven data fields.  When the first row has more than seven fields the
  leading ones become the index and the last seven are the named columns.
\<close>

definition data_fields :: "string option list \<Rightarrow> string option list" where
  "data_fields r = drop (length r - 7) r"

definition read_rows :: "lib \<Rightarrow> string \<Rightarrow> py_error + string option list list" where
  "read_rows L txt =
     (if plain_tsv txt then Inr (map data_fields (accepted_rows txt)) else quoted_rows L txt)"

definition field_at :: "nat \<Rightarrow> string option list \<Rightarrow> string option" where
  "field_at j r = (if j < length r then r ! j else None)"

definition frame_of_rows :: "lib \<Rightarrow> string option list list \<Rightarrow> frame" where
  "frame_of_rows L rows =
     map (\<lambda>j. (column_names ! j, parse_column L (map (field_at j) rows))) [0..<7]"

definition read_csv :: "lib \<Rightarrow> string \<Rightarrow> py_error + frame" where
  "read_csv L txt =
     (case read_rows L txt of Inl e \<Rightarrow> Inl e | Inr rows \<Rightarrow> Inr (frame_of_rows L rows))"

subsection \<open>Frames\<close>

text \<open>\<open>df[name]\<close>, \<open>df[name] = column\<close>, \<open>df[[names]]\<close> and \<open>len(df)\<close>.\<close>

definition getitem :: "frame \<Rightarrow> string \<Rightarrow> py_error + cell list" where
  "getitem df name = (case map_of df name of None \<Rightarrow> Inl KeyError | Some c \<Rightarrow> Inr c)"

definition setitem :: "frame \<Rightarrow> string \<Rightarrow> cell list \<Rightarrow> frame" where
  "setitem df name c =
     (if name \<in> set (map fst df)
      then map (\<lambda>(k, v). if k = name then (k, c) else (k, v)) df
      else df @ [(name, c)])"

fun select :: "frame \<Rightarrow> string list \<Rightarrow> py_error + frame" where
  "select df [] = Inr []"
| "select df (name # names) =
     (case getitem df name of
        Inl e \<Rightarrow> Inl e
      | Inr c \<Rightarrow> (case select df names of Inl e \<Rightarrow> Inl e | Inr r \<Rightarrow> Inr ((name, c) # r)))"

definition len :: "frame \<Rightarrow> nat" where
  "len df = (case df of [] \<Rightarrow> 0 | (k, c) # r \<Rightarrow> length c)"


subsection \<open>Timestamps\<close>

text \<open>
  \<open>pd.to_datetime(column, unit='s', errors='coerce')\<close>: an integer is that many
  seconds after 1970-01-01T00:00:00 and the result is a timezone-naive
  \<open>datetime64[ns]\<close>; a value outside the 64-bit nanosecond range becomes \<open>NaT\<close>.
\<close>

definition of_epoch :: "int \<Rightarrow> cell" where
  "of_epoch i =
     (if - 9223372036 \<le> i \<and> i \<le> 9223372036 then Ts (i * 1000000000) else NaT)"

fun to_datetime_cell :: "lib \<Rightarrow> cell \<Rightarrow> cell" where
  "to_datetime_cell L (I64 i) = of_epoch i"
| "to_datetime_cell L NaN = NaT"
| "to_datetime_cell L c = (case datetime_elem L c of Some n \<Rightarrow> Ts n | None \<Rightarrow> NaT)"

fun plain_epoch :: "cell \<Rightarrow> bool" where
  "plain_epoch (I64 i) = True"
| "plain_epoch NaN = True"
| "plain_epoch c = False"

definition to_datetime :: "lib \<Rightarrow> cell list \<Rightarrow> py_error + cell list" where
  "to_datetime L col =
     (if list_all plain_epoch col then Inr (map (to_datetime_cell L) col)
      else case datetime_raises L col of
             Some e \<Rightarrow> Inl e
           | None \<Rightarrow> Inr (map (to_datetime_cell L) col))"

text \<open>
  The calendar fields of a day number, as the library computes them: the year from
  the 400-year cycle counted from 2000, then the month from the table of lengths.
\<close>

definition is_leapyear :: "int \<Rightarrow> bool" where
  "is_leapyear y = (y mod 4 = 0 \<and> (y mod 100 \<noteq> 0 \<or> y mod 400 = 0))"

definition days_to_yearsdays :: "int \<Rightarrow> int \<times> int" where
  "days_to_yearsdays days0 =
     (let days1 = days0 - (365 * 30 + 7);
          year0 = 400 * (days1 div 146097);
          days2 = days1 mod 146097
      in if 366 \<le> days2 then
           (let year1 = year0 + 100 * ((days2 - 1) div 36524);
                days3 = (days2 - 1) mod 36524
            in if 365 \<le> days3 then
                 (let year2 = year1 + 4 * ((days3 + 1) div 1461);
                      days4 = (days3 + 1) mod 1461
                  in if 366 \<le> days4 then
                       (year2 + (days4 - 1) div 365 + 2000, (days4 - 1) mod 365)
                     else (year2 + 2000, days4))
               else (year1 + 2000, days3))
         else (year0 + 2000, days2))"

definition month_lengths :: "int \<Rightarrow> int list" where
  "month_lengths y =
     [31, if is_leapyear y then 29 else 28, 31, 30, 31, 30, 31, 31, 30, 31, 30, 31]"

fun month_day :: "int list \<Rightarrow> int \<Rightarrow> nat \<Rightarrow> nat \<times> int" where
  "month_day [] days i = (i, days + 1)"
| "month_day (n # ns) days i =
     (if days < n then (i + 1, days + 1) else month_day ns (days - n) (i + 1))"

record datetimestruct =
  year :: int
  month :: nat
  day :: int
  hour :: int
  minute :: int
  second :: int

definition to_datetimestruct :: "int \<Rightarrow> datetimestruct" where
  "to_datetimestruct ns =
     (let secs = ns div 1000000000;
          (y, yday) = days_to_yearsdays (secs div 86400);
          (m, d) = month_day (month_lengths y) yday 0;
          sod = secs mod 86400
      in \<lparr>year = y, month = m, day = d,
          hour = sod div 3600, minute = sod mod 3600 div 60, second = sod mod 60\<rparr>)"

definition month_abbr :: "string list" where
  "month_abbr = [''Jan'', ''Feb'', ''Mar'', ''Apr'', ''May'', ''Jun'',
                 ''Jul'', ''Aug'', ''Sep'', ''Oct'', ''Nov'', ''Dec'']"

definition pad2 :: "int \<Rightarrow> string" where
  "pad2 n = (if n < 10 then CHR ''0'' # show_int n else show_int n)"

text \<open>\<open>strftime('%d/%b/%Y:%H:%M:%S')\<close>.\<close>

definition strftime :: "int \<Rightarrow> string" where
  "strftime ns =
     (let t = to_datetimestruct ns
      in pad2 (day t) @ ''/'' @ month_abbr ! (month t - 1) @ ''/'' @ show_int (year t)
         @ '':'' @ pad2 (hour t) @ '':'' @ pad2 (minute t) @ '':'' @ pad2 (second t))"

fun is_datetime :: "cell \<Rightarrow> bool" where
  "is_datetime (Ts n) = True"
| "is_datetime NaT = True"
| "is_datetime c = False"

fun strftime_cell :: "cell \<Rightarrow> cell" where
  "strftime_cell (Ts n) = Str (strftime n)"
| "strftime_cell c = NaN"

text \<open>The \<open>.dt\<close> accessor exists on a datetime column only.\<close>

definition dt_strftime :: "cell list \<Rightarrow> py_error + cell list" where
  "dt_strftime col =
     (if list_all is_datetime col then Inr (map strftime_cell col) else Inl AttributeError)"

subsection \<open>Calendar fields as an instant of UTC\<close>






subsection \<open>Numeric cleaning\<close>

text \<open>
  \<open>pd.to_numeric(column, errors='coerce')\<close> keeps numbers and Booleans and turns a
  string into its number or into NA; a column that then holds a double or NA is a
  column of doubles.  \<open>fillna(0)\<close> replaces NA.  \<open>astype(int)\<close> truncates a double
  towards zero and raises on an infinite one.
\<close>

fun to_numeric_cell :: "lib \<Rightarrow> cell \<Rightarrow> cell" where
  "to_numeric_cell L (Str s) =
     (case str_to_numeric L s of
        None \<Rightarrow> NaN
      | Some (NInt i) \<Rightarrow> I64 i
      | Some (NFloat x) \<Rightarrow> F64 x)"
| "to_numeric_cell L c = c"

fun is_floating :: "cell \<Rightarrow> bool" where
  "is_floating NaN = True"
| "is_floating (F64 x) = True"
| "is_floating c = False"

fun upcast :: "lib \<Rightarrow> cell \<Rightarrow> cell" where
  "upcast L (I64 i) = F64 (float_of_int L i)"
| "upcast L (PyBool b) = F64 (Finite (if b then 1 else 0))"
| "upcast L c = c"

definition to_numeric :: "lib \<Rightarrow> cell list \<Rightarrow> cell list" where
  "to_numeric L col =
     (let xs = map (to_numeric_cell L) col
      in if list_ex is_floating xs then map (upcast L) xs else xs)"

definition fillna0 :: "cell list \<Rightarrow> cell list" where
  "fillna0 col = map (\<lambda>c. if c = NaN then F64 (Finite 0) else c) col"

definition trunc :: "rat \<Rightarrow> int" where
  "trunc q = (if 0 \<le> q then \<lfloor>q\<rfloor> else \<lceil>q\<rceil>)"

fun astype_int_cell :: "lib \<Rightarrow> cell \<Rightarrow> py_error + cell" where
  "astype_int_cell L (I64 i) = Inr (I64 (sint (word_of_int i :: 64 word)))"
| "astype_int_cell L (F64 (Finite q)) =
     (let t = trunc q
      in if - (2 ^ 63) \<le> t \<and> t < 2 ^ 63 then Inr (I64 t) else Inr (I64 (float_cast L q)))"
| "astype_int_cell L (F64 PosInf) = Inl IntCastingNaNError"
| "astype_int_cell L (F64 NegInf) = Inl IntCastingNaNError"
| "astype_int_cell L (PyBool b) = Inr (I64 (if b then 1 else 0))"
| "astype_int_cell L NaN = Inl IntCastingNaNError"
| "astype_int_cell L (Str s) = Inl ValueError"
| "astype_int_cell L (Ts n) = Inr (I64 n)"
| "astype_int_cell L NaT = Inl ValueError"

fun sequence :: "('e + 'a) list \<Rightarrow> 'e + 'a list" where
  "sequence [] = Inr []"
| "sequence (Inl e # rs) = Inl e"
| "sequence (Inr x # rs) = (case sequence rs of Inl e \<Rightarrow> Inl e | Inr xs \<Rightarrow> Inr (x # xs))"

definition astype_int :: "lib \<Rightarrow> cell list \<Rightarrow> py_error + cell list" where
  "astype_int L col = sequence (map (astype_int_cell L) col)"

subsection \<open>The upload handler\<close>

text \<open>
  The statements of \<open>upload\<close> after \<open>df = pd.read_csv(...)\<close>, each a change of the
  frame the global \<open>df\<close> names.  A statement that raises leaves the frame as the
  statement before it left it.
\<close>

definition derive_request :: "lib \<Rightarrow> frame \<Rightarrow> py_error + frame" where
  "derive_request L df =
     (case getitem df ''method'' of Inl e \<Rightarrow> Inl e | Inr ms \<Rightarrow>
      case getitem df ''url'' of Inl e \<Rightarrow> Inl e | Inr us \<Rightarrow>
        Inr (setitem df ''request''
               (map2 (\<lambda>m u. Str (py_str L m @ '' '' @ py_str L u)) ms us)))"

definition derive_dt :: "lib \<Rightarrow> frame \<Rightarrow> py_error + frame" where
  "derive_dt L df =
     (case getitem df ''time_epoch'' of Inl e \<Rightarrow> Inl e | Inr ts \<Rightarrow>
      case to_datetime L ts of Inl e \<Rightarrow> Inl e | Inr ds \<Rightarrow> Inr (setitem df ''dt'' ds))"

definition derive_time :: "frame \<Rightarrow> py_error + frame" where
  "derive_time df =
     (case getitem df ''dt'' of Inl e \<Rightarrow> Inl e | Inr ds \<Rightarrow>
      case dt_strftime ds of Inl e \<Rightarrow> Inl e | Inr ss \<Rightarrow> Inr (setitem df ''time'' ss))"

definition clean_status :: "lib \<Rightarrow> frame \<Rightarrow> py_error + frame" where
  "clean_status L df =
     (case getitem df ''status'' of Inl e \<Rightarrow> Inl e | Inr c \<Rightarrow>
      case astype_int L (fillna0 (to_numeric L c)) of
        Inl e \<Rightarrow> Inl e
      | Inr c' \<Rightarrow> Inr (setitem df ''status'' c'))"

definition clean_bytes :: "lib \<Rightarrow> frame \<Rightarrow> py_error + frame" where
  "clean_bytes L df =
     (case getitem df ''bytes'' of Inl e \<Rightarrow> Inl e | Inr c \<Rightarrow>
        Inr (setitem df ''bytes'' (fillna0 (to_numeric L c))))"

definition table_columns :: "string list" where
  "table_columns = [''host'', ''time'', ''request'', ''status'', ''bytes'', ''dt'']"

definition project :: "frame \<Rightarrow> py_error + frame" where
  "project df = select df table_columns"

definition transformation :: "lib \<Rightarrow> (frame \<Rightarrow> py_error + frame) list" where
  "transformation L =
     [derive_request L, derive_dt L, derive_time, clean_status L, clean_bytes L, project]"

text \<open>
  Running the statements: the frames the global names, one after each statement that
  completed, and the exception that ended the run, if one did.
\<close>

fun run :: "(frame \<Rightarrow> py_error + frame) list \<Rightarrow> frame \<Rightarrow> frame list \<times> py_error option" where
  "run [] df = ([], None)"
| "run (f # fs) df =
     (case f df of
        Inl e \<Rightarrow> ([], Some e)
      | Inr df' \<Rightarrow> (let (tr, r) = run fs df' in (df' # tr, r)))"

datatype response = Loaded nat | NotFound | Failed py_error

text \<open>
  \<open>upload\<close> on the file (\<open>None\<close> when \<open>logs.tsv\<close> is absent) and the table in place
  before the call: the values the global \<open>df\<close> takes, in order, and the response.
  The first value is the one before the call, the last the one it leaves behind.
\<close>

definition upload_trace ::
  "lib \<Rightarrow> string option \<Rightarrow> frame option \<Rightarrow> frame option list \<times> response" where
  "upload_trace L file old =
     (case file of
        None \<Rightarrow> ([old], NotFound)
      | Some txt \<Rightarrow>
          (case read_csv L txt of
             Inl e \<Rightarrow> ([old], Failed e)
           | Inr df0 \<Rightarrow>
               (let (tr, r) = run (transformation L) df0
                in (old # Some df0 # map Some tr,
                    case r of None \<Rightarrow> Loaded (len (last (df0 # tr))) | Some e \<Rightarrow> Failed e))))"

definition upload :: "lib \<Rightarrow> string option \<Rightarrow> frame option \<Rightarrow> frame option \<times> response" where
  "upload L file old = (let (tr, r) = upload_trace L file old in (last tr, r))"


subsection \<open>Strings\<close>

text \<open>The Latin-1 characters for which \<open>str.isspace\<close> holds.\<close>

definition is_space :: "char \<Rightarrow> bool" where
  "is_space c =
     (let n = (of_char c :: nat)
      in (9 \<le> n \<and> n \<le> 13) \<or> (28 \<le> n \<and> n \<le> 32) \<or> n = 133 \<or> n = 160)"

text \<open>\<open>s.split()\<close>: the maximal runs of characters that are not white space.\<close>

fun split_ws :: "string \<Rightarrow> string \<Rightarrow> string list" where
  "split_ws w [] = (if w = [] then [] else [rev w])"
| "split_ws w (c # cs) =
     (if is_space c then (if w = [] then split_ws [] cs else rev w # split_ws [] cs)
      else split_ws (c # w) cs)"

definition py_split :: "string \<Rightarrow> string list" where
  "py_split s = split_ws [] s"

definition py_strip :: "string \<Rightarrow> string" where
  "py_strip s = rev (dropWhile is_space (rev (dropWhile is_space s)))"

text \<open>Lower case in Latin-1: the letters A to Z and the accented capitals.\<close>

definition lower_char :: "char \<Rightarrow> char" where
  "lower_char c =
     (let n = (of_char c :: nat)
      in if (65 \<le> n \<and> n \<le> 90) \<or> (192 \<le> n \<and> n \<le> 222 \<and> n \<noteq> 215)
         then char_of (n + 32) else c)"

definition lower :: "string \<Rightarrow> string" where
  "lower s = map lower_char s"

fun starts_with :: "string \<Rightarrow> string \<Rightarrow> bool" where
  "starts_with [] s = True"
| "starts_with (p # ps) [] = False"
| "starts_with (p # ps) (c # cs) = (p = c \<and> starts_with ps cs)"

fun contains :: "string \<Rightarrow> string \<Rightarrow> bool" where
  "contains q [] = (q = [])"
| "contains q (c # cs) = (starts_with q (c # cs) \<or> contains q cs)"

definition contains_ci :: "string \<Rightarrow> string \<Rightarrow> bool" where
  "contains_ci q s = contains (lower q) (lower s)"

subsection \<open>Statistics\<close>

text \<open>
  \<open>value_counts()\<close>: NA is dropped, the distinct values are counted in the order in
  which they first occur, and the counts are sorted into descending order.
\<close>

fun is_null :: "cell \<Rightarrow> bool" where
  "is_null NaN = True"
| "is_null NaT = True"
| "is_null c = False"

definition dropna :: "cell list \<Rightarrow> cell list" where
  "dropna col = filter (\<lambda>c. \<not> is_null c) col"

fun unique :: "'a list \<Rightarrow> 'a list" where
  "unique [] = []"
| "unique (x # xs) = x # filter (\<lambda>y. y \<noteq> x) (unique xs)"

definition count_keys :: "'a list \<Rightarrow> ('a \<times> nat) list" where
  "count_keys xs = map (\<lambda>k. (k, count_list xs k)) (unique xs)"

definition value_counts :: "lib \<Rightarrow> cell list \<Rightarrow> (cell \<times> nat) list" where
  "value_counts L col = sort_values L (count_keys (dropna col))"

definition head :: "nat \<Rightarrow> 'a list \<Rightarrow> 'a list" where
  "head n xs = take n xs"

definition empty :: "frame \<Rightarrow> bool" where
  "empty df = (df = [] \<or> len df = 0)"






text \<open>
  The second token of each request.  The \<open>.str\<close> accessor exists on a column of
  strings only; \<open>.str[1]\<close> of a list with fewer than two tokens is NA.
\<close>

fun is_strlike :: "cell \<Rightarrow> bool" where
  "is_strlike (Str s) = True"
| "is_strlike NaN = True"
| "is_strlike c = False"

fun second_token :: "cell \<Rightarrow> cell" where
  "second_token (Str s) = (case py_split s of a # b # r \<Rightarrow> Str b | _ \<Rightarrow> NaN)"
| "second_token c = NaN"

definition str_split_get1 :: "cell list \<Rightarrow> py_error + cell list" where
  "str_split_get1 col =
     (if list_all is_strlike col then Inr (map second_token col) else Inl AttributeError)"


definition endpoint_ranking :: "lib \<Rightarrow> frame \<Rightarrow> py_error + (cell \<times> nat) list" where
  "endpoint_ranking L df =
     (case getitem df ''request'' of Inl e \<Rightarrow> Inl e | Inr reqs \<Rightarrow>
      case str_split_get1 reqs of Inl e \<Rightarrow> Inl e | Inr keys \<Rightarrow>
        Inr (head 5 (value_counts L keys)))"

definition request_ranking :: "lib \<Rightarrow> frame \<Rightarrow> py_error + (cell \<times> nat) list" where
  "request_ranking L df =
     (case getitem df ''request'' of
        Inl e \<Rightarrow> Inl e
      | Inr reqs \<Rightarrow> Inr (head 5 (value_counts L reqs)))"

text \<open>
  \<open>try: ... except: ...\<close>: the ranking by the whole request is computed only when
  the ranking by second token raised.
\<close>

definition top_5_endpoints :: "lib \<Rightarrow> frame \<Rightarrow> py_error + (cell \<times> nat) list" where
  "top_5_endpoints L df =
     (case endpoint_ranking L df of
        Inr ranked \<Rightarrow> Inr ranked
      | Inl e \<Rightarrow> request_ranking L df)"







record statistics =
  total :: nat
  unique_ips :: nat
  error_rate_pct :: float
  top_ips :: "(string \<times> nat) list"
  top_endpoints :: "(string \<times> nat) list"
  over_time :: "(int \<times> nat) list"




subsection \<open>Search\<close>

text \<open>
  \<open>df['request'].astype(str).str.contains(q, case=False, na=False)\<close> compiles \<open>q\<close>
  as a regular expression.  A pattern without metacharacters matches exactly where
  it occurs, letter case aside.
\<close>

definition metachars :: string where
  "metachars = [CHR ''.'', CHR ''^'', CHR ''$'', CHR ''*'', CHR ''+'', CHR ''?'', CHR ''{'',
                CHR ''}'', CHR ''['', CHR '']'', CHR 0x5C, CHR ''|'', CHR ''('', CHR '')'']"

definition plain_pattern :: "string \<Rightarrow> bool" where
  "plain_pattern q = list_all (\<lambda>c. c \<notin> set metachars) q"

definition str_contains :: "lib \<Rightarrow> string \<Rightarrow> cell list \<Rightarrow> py_error + bool list" where
  "str_contains L q col =
     (if plain_pattern q then Inr (map (\<lambda>c. contains_ci q (py_str L c)) col)
      else case re_compile L q of
             Inl e \<Rightarrow> Inl e
           | Inr matches \<Rightarrow> Inr (map (\<lambda>c. matches (py_str L c)) col))"

text \<open>The rows of a frame, each a dictionary from column name to cell.\<close>

definition row :: "frame \<Rightarrow> nat \<Rightarrow> (string \<times> cell) list" where
  "row df i = map (\<lambda>(k, c). (k, c ! i)) df"

definition to_dict_records :: "frame \<Rightarrow> (string \<times> cell) list list" where
  "to_dict_records df = map (row df) [0..<len df]"

definition select_rows :: "bool list \<Rightarrow> 'a list \<Rightarrow> 'a list" where
  "select_rows flags rs = map snd (filter fst (zip flags rs))"

definition clean :: "lib \<Rightarrow> (string \<times> cell) list \<Rightarrow> (string \<times> string) list" where
  "clean L r = map (\<lambda>(k, v). (k, py_str L v)) (filter (\<lambda>(k, v). k \<noteq> ''dt'') r)"

text \<open>The matching rows of the table, before the cap and the rendering.\<close>

definition matching_rows :: "lib \<Rightarrow> string \<Rightarrow> frame \<Rightarrow> py_error + (string \<times> cell) list list" where
  "matching_rows L q df =
     (case getitem df ''request'' of Inl e \<Rightarrow> Inl e | Inr reqs \<Rightarrow>
      case str_contains L q reqs of Inl e \<Rightarrow> Inl e | Inr flags \<Rightarrow>
        Inr (select_rows flags (to_dict_records df)))"

definition search ::
  "lib \<Rightarrow> string \<Rightarrow> frame option \<Rightarrow> py_error + nat \<times> (string \<times> string) list list" where
  "search L q0 g =
     (let q = py_strip q0
      in case g of
           None \<Rightarrow> Inr (0, [])
         | Some df \<Rightarrow>
             if empty df \<or> q = [] then Inr (0, [])
             else (case matching_rows L q df of
                     Inl e \<Rightarrow> Inl e
                   | Inr ms \<Rightarrow>
                       (let results = map (clean L) (head 50 ms)
                        in Inr (length results, results))))"


subsection \<open>Tables\<close>

text \<open>
  The column of a frame by name, and the shape of a finished log table: the six
  columns of equal length, requests strings, statuses integers, \<open>dt\<close> a datetime
  column.
\<close>

definition column :: "frame \<Rightarrow> string \<Rightarrow> cell list" where
  "column df name = (case map_of df name of None \<Rightarrow> [] | Some c \<Rightarrow> c)"

fun is_Str :: "cell \<Rightarrow> bool" where
  "is_Str (Str s) = True"
| "is_Str c = False"

fun is_I64 :: "cell \<Rightarrow> bool" where
  "is_I64 (I64 i) = True"
| "is_I64 c = False"

fun is_number :: "cell \<Rightarrow> bool" where
  "is_number (I64 i) = True"
| "is_number (F64 x) = True"
| "is_number (PyBool b) = True"
| "is_number c = False"

fun is_raw :: "cell \<Rightarrow> bool" where
  "is_raw (Ts n) = False"
| "is_raw NaT = False"
| "is_raw c = True"

definition is_table :: "frame \<Rightarrow> bool" where
  "is_table df =
     (map fst df = table_columns
      \<and> list_all (\<lambda>kc. length (snd kc) = len df) df
      \<and> list_all is_Str (column df ''request'')
      \<and> list_all is_I64 (column df ''status'')
      \<and> list_all is_number (column df ''bytes'')
      \<and> list_all is_datetime (column df ''dt''))"

definition request_column :: "lib \<Rightarrow> frame \<Rightarrow> cell list" where
  "request_column L df =
     map2 (\<lambda>m u. Str (py_str L m @ '' '' @ py_str L u)) (column df ''method'') (column df ''url'')"

definition request_of :: "(string \<times> cell) list \<Rightarrow> string" where
  "request_of r = (case map_of r ''request'' of Some (Str s) \<Rightarrow> s | _ \<Rightarrow> [])"

text \<open>The keys that \<open>top_5_endpoints\<close> ranks, with their counts, before the sort.\<close>

definition endpoint_keys :: "cell list \<Rightarrow> (cell \<times> nat) list" where
  "endpoint_keys reqs = count_keys (dropna (map second_token reqs))"

subsection \<open>A small library for the examples\<close>

text \<open>
  One value of the library parameter, used where a theorem is applied to a concrete
  file: decimal integers within 64 bits, the doubles of integers and \<open>inf\<close>, the
  common NA words, whole seconds as timestamps, a stable sort, no quoting and no
  regular expressions.  The examples use only text on which it agrees with pandas.
\<close>

definition is_digit :: "char \<Rightarrow> bool" where
  "is_digit c = (48 \<le> (of_char c :: nat) \<and> (of_char c :: nat) \<le> 57)"

definition parse_nat :: "string \<Rightarrow> int option" where
  "parse_nat s =
     (if s \<noteq> [] \<and> list_all is_digit s
      then Some (foldl (\<lambda>a c. 10 * a + (int (of_char c) - 48)) 0 s) else None)"

definition parse_decimal :: "string \<Rightarrow> int option" where
  "parse_decimal s =
     (case (case s of [] \<Rightarrow> None
                   | c # r \<Rightarrow> if c = CHR ''-'' then map_option uminus (parse_nat r)
                              else parse_nat s) of
        None \<Rightarrow> None
      | Some i \<Rightarrow> if - (2 ^ 63) \<le> i \<and> i < 2 ^ 63 then Some i else None)"

definition sample_float :: "string \<Rightarrow> float option" where
  "sample_float s =
     (if s = ''inf'' then Some PosInf
      else map_option (\<lambda>i. Finite (of_int i)) (parse_decimal s))"

definition sample_numeric :: "string \<Rightarrow> num option" where
  "sample_numeric s =
     (if s = ''inf'' then Some (NFloat PosInf) else map_option NInt (parse_decimal s))"

definition sample_repr :: "float \<Rightarrow> string" where
  "sample_repr x =
     (case x of Finite q \<Rightarrow> show_int \<lfloor>q\<rfloor> @ ''.0'' | PosInf \<Rightarrow> ''inf'' | NegInf \<Rightarrow> ''-inf'')"

definition sample_datetime :: "cell \<Rightarrow> int option" where
  "sample_datetime c =
     (case c of
        F64 (Finite q) \<Rightarrow>
          if q = of_int \<lfloor>q\<rfloor> \<and> - 9223372036 \<le> \<lfloor>q\<rfloor> \<and> \<lfloor>q\<rfloor> \<le> 9223372036
          then Some (\<lfloor>q\<rfloor> * 1000000000) else None
      | _ \<Rightarrow> None)"

definition sample_lib :: lib where
  "sample_lib =
     \<lparr>na_value = (\<lambda>s. s \<in> set [''NA'', ''NaN'', ''nan'', ''NULL'', ''null'', ''N/A'', ''n/a'']),
      parse_int = parse_decimal,
      parse_float = sample_float,
      quoted_rows = (\<lambda>s. Inl ParserError),
      float_repr = sample_repr,
      timestamp_str = (\<lambda>n. show_int n),
      float_of_int = (\<lambda>i. Finite (of_int i)),
      float_cast = (\<lambda>q. - (2 ^ 63)),
      str_to_numeric = sample_numeric,
      datetime_raises = (\<lambda>c. None),
      datetime_elem = sample_datetime,
      re_compile = (\<lambda>q. Inl ReError),
      round_pct = (\<lambda>e t. Finite (of_int \<lfloor>10000 * rat_of_nat e / rat_of_nat t + 1 / 2\<rfloor> / 100)),
      sort_values = sort_key (\<lambda>kv. - int (snd kv))\<rparr>"

text \<open>A line of the file from its fields.\<close>

fun tsv_line :: "string list \<Rightarrow> string" where
  "tsv_line [] = []"
| "tsv_line [f] = f"
| "tsv_line (f # g # fs) = f @ TAB # tsv_line (g # fs)"


subsection \<open>Example files\<close>

definition good_line :: string where
  "good_line =
     tsv_line [''10.0.0.1'', ''-'', ''804571304'', ''GET'', ''/shuttle/missions/sts-1'',
               ''200'', ''1024'']"





definition bad_status_line :: string where
  "bad_status_line = tsv_line [''10.0.0.9'', ''-'', ''804571400'', ''GET'', ''/x'', ''inf'', ''5'']"


definition good_table :: frame where
  "good_table =
     [(''host'', [Str ''10.0.0.1'']), (''time'', [Str ''01/Jul/1995:04:01:44'']),
      (''request'', [Str ''GET /shuttle/missions/sts-1'']), (''status'', [I64 200]),
      (''bytes'', [I64 1024]), (''dt'', [Ts 804571304000000000])]"

definition gap_log :: string where
  "gap_log =
     tsv_line [''10.0.0.1'', ''-'', ''804571304'', ''GET'', ''/a'', ''200'', ''10'']
     @ LF # tsv_line [''10.0.0.2'', ''-'', ''804578504'', ''GET'', '' '', ''500'', ''20'']
     @ LF # tsv_line [''10.0.0.1'', ''-'', '''', ''POST'', ''/a'', ''404'', ''30'']"

definition gap_table :: frame where
  "gap_table =
     [(''host'', [Str ''10.0.0.1'', Str ''10.0.0.2'', Str ''10.0.0.1'']),
      (''time'', [Str ''01/Jul/1995:04:01:44'', Str ''01/Jul/1995:06:01:44'', NaN]),
      (''request'', [Str ''GET /a'', Str ''GET  '', Str ''POST /a'']),
      (''status'', [I64 200, I64 500, I64 404]),
      (''bytes'', [I64 10, I64 20, I64 30]),
      (''dt'', [Ts 804571304000000000, Ts 804578504000000000, NaT])]"

lemma length_split_on_pos: "0 < length (split_on d s)"
  by (induction s) (auto simp: Let_def)

lemma later_rows_filter:
  "later_rows w ls =
     map (\<lambda>l. pad_fields w (split_on TAB l)) (filter (\<lambda>l. \<not> blank_line l \<and> ncols l \<le> w) ls)"
  by (induction ls) auto

lemma tokenize_rows_width: "7 \<le> fst (tokenize_rows ls)"
  by (induction ls) (auto simp: Let_def)

lemma tokenize_rows_filter:
  "snd (tokenize_rows ls) =
     map (\<lambda>l. pad_fields (fst (tokenize_rows ls)) (split_on TAB l))
       (filter (\<lambda>l. \<not> blank_line l \<and> ncols l \<le> fst (tokenize_rows ls)) ls)"
  by (induction ls) (auto simp: Let_def later_rows_filter)

lemma accepted_rows_kept:
  "accepted_rows txt =
     map (\<lambda>l. pad_fields (expected_fields txt) (split_on TAB l)) (kept_lines txt)"
  unfolding accepted_rows_def kept_lines_def expected_fields_def
  by (rule tokenize_rows_filter)


lemma expected_fields_ge: "7 \<le> expected_fields txt"
  unfolding expected_fields_def by (rule tokenize_rows_width)


lemma length_pad_fields: "length fs \<le> w \<Longrightarrow> length (pad_fields w fs) = w"
  by (simp add: pad_fields_def)

lemma length_accepted_row:
  "r \<in> set (accepted_rows txt) \<Longrightarrow> length r = expected_fields txt"
  unfolding accepted_rows_kept kept_lines_def
  by (auto simp: length_pad_fields ncols_def)

lemma length_data_fields: "7 \<le> length r \<Longrightarrow> length (data_fields r) = 7"
  by (simp add: data_fields_def)

lemma frame_of_rows_eq:
  "frame_of_rows L rows =
     [(''host'', parse_column L (map (field_at 0) rows)),
      (''dash'', parse_column L (map (field_at 1) rows)),
      (''time_epoch'', parse_column L (map (field_at 2) rows)),
      (''method'', parse_column L (map (field_at 3) rows)),
      (''url'', parse_column L (map (field_at 4) rows)),
      (''status'', parse_column L (map (field_at 5) rows)),
      (''bytes'', parse_column L (map (field_at 6) rows))]"
proof -
  have "[0..<7] = [0, 1, 2, 3, 4, 5, 6::nat]"
    by (simp add: upt_rec)
  then show ?thesis
    by (simp add: frame_of_rows_def column_names_def)
qed

lemma length_parse_column: "length (parse_column L fs) = length fs"
  by (simp add: parse_column_def)

lemma derive_request_raw:
  "derive_request L
     [(''host'', h), (''dash'', d), (''time_epoch'', t), (''method'', m), (''url'', u),
      (''status'', s), (''bytes'', b)] =
   Inr [(''host'', h), (''dash'', d), (''time_epoch'', t), (''method'', m), (''url'', u),
        (''status'', s), (''bytes'', b),
        (''request'', map2 (\<lambda>m u. Str (py_str L m @ '' '' @ py_str L u)) m u)]"
  by (simp add: derive_request_def getitem_def setitem_def)

lemma derive_dt_raw:
  "derive_dt L
     [(''host'', h), (''dash'', d), (''time_epoch'', t), (''method'', m), (''url'', u),
      (''status'', s), (''bytes'', b), (''request'', r)] =
   (case to_datetime L t of
      Inl e \<Rightarrow> Inl e
    | Inr ds \<Rightarrow>
        Inr [(''host'', h), (''dash'', d), (''time_epoch'', t), (''method'', m), (''url'', u),
             (''status'', s), (''bytes'', b), (''request'', r), (''dt'', ds)])"
  by (simp add: derive_dt_def getitem_def setitem_def split: sum.splits)

lemma derive_time_raw:
  "derive_time
     [(''host'', h), (''dash'', d), (''time_epoch'', t), (''method'', m), (''url'', u),
      (''status'', s), (''bytes'', b), (''request'', r), (''dt'', ds)] =
   (case dt_strftime ds of
      Inl e \<Rightarrow> Inl e
    | Inr ss \<Rightarrow>
        Inr [(''host'', h), (''dash'', d), (''time_epoch'', t), (''method'', m), (''url'', u),
             (''status'', s), (''bytes'', b), (''request'', r), (''dt'', ds), (''time'', ss)])"
  by (simp add: derive_time_def getitem_def setitem_def split: sum.splits)

lemma clean_status_raw:
  "clean_status L
     [(''host'', h), (''dash'', d), (''time_epoch'', t), (''method'', m), (''url'', u),
      (''status'', s), (''bytes'', b), (''request'', r), (''dt'', ds), (''time'', ss)] =
   (case astype_int L (fillna0 (to_numeric L s)) of
      Inl e \<Rightarrow> Inl e
    | Inr st \<Rightarrow>
        Inr [(''host'', h), (''dash'', d), (''time_epoch'', t), (''method'', m), (''url'', u),
             (''status'', st), (''bytes'', b), (''request'', r), (''dt'', ds), (''time'', ss)])"
  by (simp add: clean_status_def getitem_def setitem_def split: sum.splits)

lemma clean_bytes_raw:
  "clean_bytes L
     [(''host'', h), (''dash'', d), (''time_epoch'', t), (''method'', m), (''url'', u),
      (''status'', st), (''bytes'', b), (''request'', r), (''dt'', ds), (''time'', ss)] =
   Inr [(''host'', h), (''dash'', d), (''time_epoch'', t), (''method'', m), (''url'', u),
        (''status'', st), (''bytes'', fillna0 (to_numeric L b)), (''request'', r),
        (''dt'', ds), (''time'', ss)]"
  by (simp add: clean_bytes_def getitem_def setitem_def)

lemma project_raw:
  "project
     [(''host'', h), (''dash'', d), (''time_epoch'', t), (''method'', m), (''url'', u),
      (''status'', st), (''bytes'', by), (''request'', r), (''dt'', ds), (''time'', ss)] =
   Inr [(''host'', h), (''time'', ss), (''request'', r), (''status'', st), (''bytes'', by),
        (''dt'', ds)]"
  by (simp add: project_def table_columns_def getitem_def)

lemma to_datetime_Inr: "to_datetime L t = Inr ds \<Longrightarrow> ds = map (to_datetime_cell L) t"
  by (auto simp: to_datetime_def split: if_splits option.splits)

lemma is_datetime_of_epoch: "is_datetime (of_epoch i)"
  by (simp add: of_epoch_def)

lemma is_datetime_to_datetime_cell: "is_datetime (to_datetime_cell L c)"
  by (cases c) (auto simp: is_datetime_of_epoch split: option.splits)

lemma dt_strftime_to_datetime:
  "dt_strftime (map (to_datetime_cell L) t) = Inr (map strftime_cell (map (to_datetime_cell L) t))"
  by (simp add: dt_strftime_def list_all_iff is_datetime_to_datetime_cell)

lemma upload_trace_cases:
  assumes rows: "read_rows L txt = Inr rows"
  shows "upload_trace L (Some txt) old =
    (let df0 = frame_of_rows L rows;
         df1 = setitem df0 ''request'' (request_column L df0)
     in case to_datetime L (column df0 ''time_epoch'') of
          Inl e \<Rightarrow> ([old, Some df0, Some df1], Failed e)
        | Inr ds \<Rightarrow>
            (let df2 = setitem df1 ''dt'' ds;
                 df3 = setitem df2 ''time'' (map strftime_cell ds)
             in case astype_int L (fillna0 (to_numeric L (column df0 ''status''))) of
                  Inl e \<Rightarrow> ([old, Some df0, Some df1, Some df2, Some df3], Failed e)
                | Inr st \<Rightarrow>
                    (let bs = fillna0 (to_numeric L (column df0 ''bytes''));
                         df4 = setitem df3 ''status'' st;
                         df5 = setitem df4 ''bytes'' bs;
                         tbl = [(''host'', column df0 ''host''), (''time'', map strftime_cell ds),
                                (''request'', request_column L df0), (''status'', st),
                                (''bytes'', bs), (''dt'', ds)]
                     in ([old, Some df0, Some df1, Some df2, Some df3, Some df4, Some df5,
                          Some tbl], Loaded (length rows)))))"
proof (cases "to_datetime L (column (frame_of_rows L rows) ''time_epoch'')")
  case (Inl e)
  then show ?thesis
    using rows
    by (simp add: upload_trace_def read_csv_def frame_of_rows_eq transformation_def
        derive_request_raw derive_dt_raw column_def request_column_def setitem_def)
next
  case (Inr ds)
  then have ds: "ds = map (to_datetime_cell L) (column (frame_of_rows L rows) ''time_epoch'')"
    by (rule to_datetime_Inr)
  have strf: "dt_strftime ds = Inr (map strftime_cell ds)"
    unfolding ds by (rule dt_strftime_to_datetime)
  show ?thesis
  proof (cases "astype_int L (fillna0 (to_numeric L (column (frame_of_rows L rows) ''status'')))")
    case (Inl e)
    then show ?thesis
      using rows Inr strf
      by (simp add: upload_trace_def read_csv_def frame_of_rows_eq transformation_def
          derive_request_raw derive_dt_raw derive_time_raw clean_status_raw
          column_def request_column_def setitem_def Let_def)
  next
    case st: (Inr st)
    then show ?thesis
      using rows Inr strf
      by (simp add: upload_trace_def read_csv_def frame_of_rows_eq transformation_def
          derive_request_raw derive_dt_raw derive_time_raw clean_status_raw clean_bytes_raw
          project_raw column_def request_column_def setitem_def len_def length_parse_column Let_def)
  qed
qed



section \<open>Ingestion: which lines become records\<close>




lemma sequence_Inr:
  "sequence rs = Inr xs \<Longrightarrow> rs = map Inr xs"
proof (induction rs arbitrary: xs rule: sequence.induct)
  case 1
  then show ?case by simp
next
  case (2 e rs)
  then show ?case by simp
next
  case (3 x rs)
  then show ?case by (auto split: sum.splits)
qed

lemma astype_int_cell_I64: "astype_int_cell L c = Inr d \<Longrightarrow> is_I64 d"
  by (induction L c rule: astype_int_cell.induct) (auto simp: Let_def split: if_splits)

lemma astype_int_Inr:
  assumes "astype_int L col = Inr st"
  shows "length st = length col" and "list_all is_I64 st"
    and "i < length col \<Longrightarrow> astype_int_cell L (col ! i) = Inr (st ! i)"
proof -
  have eq: "map (astype_int_cell L) col = map Inr st"
    using assms unfolding astype_int_def by (rule sequence_Inr)
  then show len: "length st = length col"
    by (metis length_map)
  show "i < length col \<Longrightarrow> astype_int_cell L (col ! i) = Inr (st ! i)"
    using eq len by (metis nth_map)
  show "list_all is_I64 st"
    unfolding list_all_length
  proof (intro allI impI)
    fix n assume "n < length st"
    then have "astype_int_cell L (col ! n) = Inr (st ! n)"
      using eq len by (metis nth_map)
    then show "is_I64 (st ! n)" by (rule astype_int_cell_I64)
  qed
qed

lemma length_to_numeric: "length (to_numeric L col) = length col"
  by (simp add: to_numeric_def Let_def)

lemma length_fillna0: "length (fillna0 col) = length col"
  by (simp add: fillna0_def)

lemma upcast_NaN: "to_numeric_cell L c = NaN \<Longrightarrow> upcast L (to_numeric_cell L c) = NaN"
  by simp



lemma astype_int_cell_zero: "astype_int_cell L (F64 (Finite 0)) = Inr (I64 0)"
  by (simp add: trunc_def)

lemma is_raw_parse_cell: "is_raw (parse_cell L t f)"
  by (induction L t f rule: parse_cell.induct) (auto split: option.splits)

lemma is_number_clean:
  assumes "is_raw c"
  shows "upcast L (to_numeric_cell L c) \<noteq> NaN \<Longrightarrow> is_number (upcast L (to_numeric_cell L c))"
    and "to_numeric_cell L c \<noteq> NaN \<Longrightarrow> is_number (to_numeric_cell L c)"
  using assms by (cases c; auto split: option.splits num.splits)+

lemma is_number_fillna0_to_numeric:
  assumes "list_all is_raw col"
  shows "list_all is_number (fillna0 (to_numeric L col))"
  using assms is_number_clean
  by (auto simp: fillna0_def to_numeric_def Let_def list_all_iff)

lemma list_all_is_raw_parse_column: "list_all is_raw (parse_column L fs)"
  by (simp add: parse_column_def list_all_iff is_raw_parse_cell)

lemma list_all_is_Str_request: "list_all is_Str (request_column L df)"
  by (auto simp: request_column_def list_all_iff set_zip)

lemma length_request_column:
  "length (request_column L (frame_of_rows L rows)) = length rows"
  by (simp add: request_column_def frame_of_rows_eq column_def length_parse_column)

lemma column_frame_of_rows:
  "column (frame_of_rows L rows) ''host'' = parse_column L (map (field_at 0) rows)"
  "column (frame_of_rows L rows) ''time_epoch'' = parse_column L (map (field_at 2) rows)"
  "column (frame_of_rows L rows) ''method'' = parse_column L (map (field_at 3) rows)"
  "column (frame_of_rows L rows) ''url'' = parse_column L (map (field_at 4) rows)"
  "column (frame_of_rows L rows) ''status'' = parse_column L (map (field_at 5) rows)"
  "column (frame_of_rows L rows) ''bytes'' = parse_column L (map (field_at 6) rows)"
  by (simp_all add: frame_of_rows_eq column_def)


lemma read_csv_Inr: "read_csv L txt = Inr df0 \<Longrightarrow> \<exists>rows. read_rows L txt = Inr rows \<and> df0 = frame_of_rows L rows"
  by (auto simp: read_csv_def split: sum.splits)


lemma is_table_literal:
  assumes "length h = n" "length t = n" "length r = n" "length s = n" "length b = n"
    "length d = n" "list_all is_Str r" "list_all is_I64 s" "list_all is_number b"
    "list_all is_datetime d"
  shows "is_table [(''host'', h), (''time'', t), (''request'', r), (''status'', s),
                   (''bytes'', b), (''dt'', d)]"
  using assms by (simp add: is_table_def table_columns_def len_def column_def)


lemma len_literal:
  "len [(''host'', h), (''time'', t), (''request'', r), (''status'', s),
        (''bytes'', b), (''dt'', d)] = length h"
  by (simp add: len_def)

lemma is_table_result:
  assumes ds: "to_datetime L (column (frame_of_rows L rows) ''time_epoch'') = Inr ds"
    and st: "astype_int L (fillna0 (to_numeric L (column (frame_of_rows L rows) ''status''))) = Inr st"
  shows "is_table [(''host'', column (frame_of_rows L rows) ''host''),
                   (''time'', map strftime_cell ds),
                   (''request'', request_column L (frame_of_rows L rows)),
                   (''status'', st),
                   (''bytes'', fillna0 (to_numeric L (column (frame_of_rows L rows) ''bytes''))),
                   (''dt'', ds)]"
proof -
  have dsm: "ds = map (to_datetime_cell L) (column (frame_of_rows L rows) ''time_epoch'')"
    using ds by (rule to_datetime_Inr)
  have "length ds = length rows"
    by (simp add: dsm column_frame_of_rows length_parse_column)
  moreover have "list_all is_datetime ds"
    by (simp add: dsm list_all_iff is_datetime_to_datetime_cell)
  moreover have "length st = length rows"
    using astype_int_Inr(1) [OF st]
    by (simp add: length_fillna0 length_to_numeric column_frame_of_rows length_parse_column)
  moreover have "list_all is_I64 st"
    by (rule astype_int_Inr(2) [OF st])
  moreover have "list_all is_number
      (fillna0 (to_numeric L (column (frame_of_rows L rows) ''bytes'')))"
    by (simp add: is_number_fillna0_to_numeric column_frame_of_rows list_all_is_raw_parse_column)
  ultimately show ?thesis
    by (intro is_table_literal [where n = "length rows"])
      (simp_all add: column_frame_of_rows length_parse_column length_request_column
        list_all_is_Str_request length_fillna0 length_to_numeric)
qed

section \<open>The fields of the log table\<close>




section \<open>The request column\<close>



section \<open>How an upload replaces the table\<close>

text \<open>
  Claim C4, as the code has it.  The values of the global \<open>df\<close> during an upload:
  when the file is absent or \<open>read_csv\<close> raises, the previous table and nothing
  else.  Otherwise the raw frame is bound to the global as soon as it is read, the
  derived columns are then added to it and cleaned in place, and the finished table
  is bound last.  When a later statement raises, the global keeps the frame as far
  as it was transformed (it still has the seven raw columns) and the previous table
  is gone; on success the last value is a complete table of the reported length.
\<close>

theorem upload_replaces_table_in_steps:
  "upload_trace L None old = ([old], NotFound)
   \<and> (\<forall>e. read_csv L txt = Inl e \<longrightarrow> upload_trace L (Some txt) old = ([old], Failed e))
   \<and> (\<forall>df0. read_csv L txt = Inr df0 \<longrightarrow>
         (\<exists>tr r. upload_trace L (Some txt) old = (old # Some df0 # map Some tr, r)
            \<and> tr \<noteq> []
            \<and> hd tr = setitem df0 ''request'' (request_column L df0)
            \<and> list_all (\<lambda>df. column df ''host'' = column df0 ''host'') tr
            \<and> (case r of
                  Loaded n \<Rightarrow> length tr = 6 \<and> is_table (last tr) \<and> len (last tr) = n
                | Failed e \<Rightarrow> length tr < 6 \<and> take 7 (map fst (last tr)) = column_names
                | NotFound \<Rightarrow> False)))"
proof (intro conjI allI impI)
  show "upload_trace L None old = ([old], NotFound)"
    by (simp add: upload_trace_def)
next
  fix e assume "read_csv L txt = Inl e"
  then show "upload_trace L (Some txt) old = ([old], Failed e)"
    by (simp add: upload_trace_def)
next
  fix df0 assume r: "read_csv L txt = Inr df0"
  from read_csv_Inr [OF r] obtain rows where
    rows: "read_rows L txt = Inr rows" and df0: "df0 = frame_of_rows L rows"
    by blast
  let ?df1 = "setitem df0 ''request'' (request_column L df0)"
  show "\<exists>tr r. upload_trace L (Some txt) old = (old # Some df0 # map Some tr, r)
            \<and> tr \<noteq> []
            \<and> hd tr = ?df1
            \<and> list_all (\<lambda>df. column df ''host'' = column df0 ''host'') tr
            \<and> (case r of
                  Loaded n \<Rightarrow> length tr = 6 \<and> is_table (last tr) \<and> len (last tr) = n
                | Failed e \<Rightarrow> length tr < 6 \<and> take 7 (map fst (last tr)) = column_names
                | NotFound \<Rightarrow> False)"
  proof (cases "to_datetime L (column df0 ''time_epoch'')")
    case (Inl e)
    have "upload_trace L (Some txt) old = (old # Some df0 # map Some [?df1], Failed e)"
      using Inl unfolding upload_trace_cases [OF rows] df0 by (simp add: Let_def)
    moreover have "column ?df1 ''host'' = column df0 ''host''"
      and "take 7 (map fst ?df1) = column_names"
      by (simp_all add: df0 frame_of_rows_eq setitem_def column_def column_names_def)
    ultimately show ?thesis
      by (intro exI [of _ "[?df1]"] exI [of _ "Failed e"]) simp
  next
    case ds: (Inr ds)
    let ?df2 = "setitem ?df1 ''dt'' ds"
    let ?df3 = "setitem ?df2 ''time'' (map strftime_cell ds)"
    have host3: "column ?df1 ''host'' = column df0 ''host''"
      "column ?df2 ''host'' = column df0 ''host''"
      "column ?df3 ''host'' = column df0 ''host''"
      and names3: "take 7 (map fst ?df3) = column_names"
      by (simp_all add: df0 frame_of_rows_eq setitem_def column_def column_names_def)
    show ?thesis
    proof (cases "astype_int L (fillna0 (to_numeric L (column df0 ''status'')))")
      case (Inl e)
      have "upload_trace L (Some txt) old =
          (old # Some df0 # map Some [?df1, ?df2, ?df3], Failed e)"
        using Inl ds unfolding upload_trace_cases [OF rows] df0 by (simp add: Let_def)
      then show ?thesis
        using host3 names3
        by (intro exI [of _ "[?df1, ?df2, ?df3]"] exI [of _ "Failed e"]) simp
    next
      case st: (Inr st)
      let ?bs = "fillna0 (to_numeric L (column df0 ''bytes''))"
      let ?df4 = "setitem ?df3 ''status'' st"
      let ?df5 = "setitem ?df4 ''bytes'' ?bs"
      let ?tbl = "[(''host'', column df0 ''host''), (''time'', map strftime_cell ds),
                   (''request'', request_column L df0), (''status'', st),
                   (''bytes'', ?bs), (''dt'', ds)]"
      have "upload_trace L (Some txt) old =
          (old # Some df0 # map Some [?df1, ?df2, ?df3, ?df4, ?df5, ?tbl], Loaded (length rows))"
        using st ds unfolding upload_trace_cases [OF rows] df0 by (simp add: Let_def)
      moreover have "column ?df4 ''host'' = column df0 ''host''"
        "column ?df5 ''host'' = column df0 ''host''"
        "column ?tbl ''host'' = column df0 ''host''"
        by (simp_all add: df0 frame_of_rows_eq setitem_def column_def)
      moreover have "is_table ?tbl"
        using is_table_result [of L rows ds st] ds st by (simp add: df0)
      moreover have "len ?tbl = length rows"
        by (simp add: len_literal df0 column_frame_of_rows length_parse_column)
      ultimately show ?thesis
        using host3
        by (intro exI [of _ "[?df1, ?df2, ?df3, ?df4, ?df5, ?tbl]"]
            exI [of _ "Loaded (length rows)"]) simp
    qed
  qed
qed

lemma upload_good_line:
  "upload sample_lib (Some good_line) None = (Some good_table, Loaded 1)"
  by code_simp

lemma read_good_line:
  "read_csv sample_lib good_line =
     Inr [(''host'', [Str ''10.0.0.1'']), (''dash'', [Str ''-'']),
          (''time_epoch'', [I64 804571304]), (''method'', [Str ''GET'']),
          (''url'', [Str ''/shuttle/missions/sts-1'']), (''status'', [I64 200]),
          (''bytes'', [I64 1024])]"
  by code_simp

text \<open>The theorem at an absent file and at the one-line file: eight values of the global.\<close>

theorem upload_replaces_table_in_steps_examples:
  "upload_trace sample_lib None (Some good_table) = ([Some good_table], NotFound)
   \<and> length (fst (upload_trace sample_lib (Some good_line) None)) = 8
   \<and> snd (upload_trace sample_lib (Some good_line) None) = Loaded 1
   \<and> last (fst (upload_trace sample_lib (Some good_line) None)) = Some good_table"
proof -
  have "upload_trace sample_lib (Some good_line) None =
    ([None,
      Some [(''host'', [Str ''10.0.0.1'']), (''dash'', [Str ''-'']),
          (''time_epoch'', [I64 804571304]), (''method'', [Str ''GET'']),
          (''url'', [Str ''/shuttle/missions/sts-1'']), (''status'', [I64 200]),
          (''bytes'', [I64 1024])],
      Some [(''host'', [Str ''10.0.0.1'']), (''dash'', [Str ''-'']),
          (''time_epoch'', [I64 804571304]), (''method'', [Str ''GET'']),
          (''url'', [Str ''/shuttle/missions/sts-1'']), (''status'', [I64 200]),
          (''bytes'', [I64 1024]), (''request'', [Str ''GET /shuttle/missions/sts-1''])],
      Some [(''host'', [Str ''10.0.0.1'']), (''dash'', [Str ''-'']),
          (''time_epoch'', [I64 804571304]), (''method'', [Str ''GET'']),
          (''url'', [Str ''/shuttle/missions/sts-1'']), (''status'', [I64 200]),
          (''bytes'', [I64 1024]), (''request'', [Str ''GET /shuttle/missions/sts-1'']),
          (''dt'', [Ts 804571304000000000])],
      Some [(''host'', [Str ''10.0.0.1'']), (''dash'', [Str ''-'']),
          (''time_epoch'', [I64 804571304]), (''method'', [Str ''GET'']),
          (''url'', [Str ''/shuttle/missions/sts-1'']), (''status'', [I64 200]),
          (''bytes'', [I64 1024]), (''request'', [Str ''GET /shuttle/missions/sts-1'']),
          (''dt'', [Ts 804571304000000000]), (''time'', [Str ''01/Jul/1995:04:01:44''])],
      Some [(''host'', [Str ''10.0.0.1'']), (''dash'', [Str ''-'']),
          (''time_epoch'', [I64 804571304]), (''method'', [Str ''GET'']),
          (''url'', [Str ''/shuttle/missions/sts-1'']), (''status'', [I64 200]),
          (''bytes'', [I64 1024]), (''request'', [Str ''GET /shuttle/missions/sts-1'']),
          (''dt'', [Ts 804571304000000000]), (''time'', [Str ''01/Jul/1995:04:01:44''])],
      Some [(''host'', [Str ''10.0.0.1'']), (''dash'', [Str ''-'']),
          (''time_epoch'', [I64 804571304]), (''method'', [Str ''GET'']),
          (''url'', [Str ''/shuttle/missions/sts-1'']), (''status'', [I64 200]),
          (''bytes'', [I64 1024]), (''request'', [Str ''GET /shuttle/missions/sts-1'']),
          (''dt'', [Ts 804571304000000000]), (''time'', [Str ''01/Jul/1995:04:01:44''])],
      Some good_table], Loaded 1)"
    by code_simp
  then show ?thesis
    using upload_replaces_table_in_steps [of sample_lib "Some good_table" good_line]
    by simp
qed

text \<open>
  Against C4 as stated: with a table in place, the upload of a line whose status is
  \<open>inf\<close> fails in \<open>astype(int)\<close> and leaves a frame of ten columns behind, not the
  previous table; and during a successful upload the second value of the global is
  the raw frame, neither the previous nor the new table.
\<close>

theorem failed_upload_leaves_partial_frame:
  "upload sample_lib (Some bad_status_line) (Some good_table) =
     (Some [(''host'', [Str ''10.0.0.9'']), (''dash'', [Str ''-'']),
            (''time_epoch'', [I64 804571400]), (''method'', [Str ''GET'']),
            (''url'', [Str ''/x'']), (''status'', [F64 PosInf]), (''bytes'', [I64 5]),
            (''request'', [Str ''GET /x'']), (''dt'', [Ts 804571400000000000]),
            (''time'', [Str ''01/Jul/1995:04:03:20''])],
      Failed IntCastingNaNError)
   \<and> fst (upload sample_lib (Some bad_status_line) (Some good_table)) \<noteq> Some good_table
   \<and> fst (upload_trace sample_lib (Some good_line) None) ! 1 \<noteq> None
   \<and> fst (upload_trace sample_lib (Some good_line) None) ! 1 \<noteq> Some good_table"
  by code_simp



section \<open>The calendar computation is the UTC calendar\<close>













section \<open>Timestamps do not depend on the host\<close>





lemma indicator_sum_distinct:
  "distinct bs \<Longrightarrow>
     sum_list (map (\<lambda>b. if x = b then 1 else 0) bs) = (if x \<in> set bs then 1 else (0::nat))"
  by (induction bs) auto

lemma sum_bucket_counts:
  assumes "distinct bs"
  shows "sum_list (map (\<lambda>b. length (filter (\<lambda>t. f t = b) ts)) bs)
         = length (filter (\<lambda>t. f t \<in> set bs) ts)"
proof (induction ts)
  case Nil
  then show ?case by simp
next
  case (Cons t ts)
  have "sum_list (map (\<lambda>b. length (filter (\<lambda>t. f t = b) (t # ts))) bs)
      = sum_list (map (\<lambda>b. (if f t = b then 1 else 0) + length (filter (\<lambda>t. f t = b) ts)) bs)"
    by (rule arg_cong [where f = sum_list]) (rule map_cong, auto)
  also have "\<dots> = sum_list (map (\<lambda>b. if f t = b then 1 else 0) bs)
      + sum_list (map (\<lambda>b. length (filter (\<lambda>t. f t = b) ts)) bs)"
    by (simp add: sum_list_addf)
  also have "\<dots> = (if f t \<in> set bs then 1 else 0) + length (filter (\<lambda>t. f t \<in> set bs) ts)"
    by (simp only: indicator_sum_distinct [OF assms] Cons.IH)
  finally show ?case by simp
qed




lemma is_table_cases:
  assumes "is_table df"
  obtains h t r s b d where
    "df = [(''host'', h), (''time'', t), (''request'', r), (''status'', s), (''bytes'', b),
           (''dt'', d)]"
    "length h = len df" "length t = len df" "length r = len df" "length s = len df"
    "length b = len df" "length d = len df"
    "list_all is_Str r" "list_all is_I64 s" "list_all is_number b" "list_all is_datetime d"
proof -
  from assms have names: "map fst df = table_columns"
    by (simp add: is_table_def)
  then obtain h t r s b d where df:
    "df = [(''host'', h), (''time'', t), (''request'', r), (''status'', s), (''bytes'', b),
           (''dt'', d)]"
    by (auto simp: table_columns_def map_eq_Cons_conv)
  show thesis
    using assms by (intro that [OF df]) (simp_all add: df is_table_def column_def len_def)
qed




lemma is_strlike_Str: "list_all is_Str r \<Longrightarrow> list_all is_strlike r"
  by (induction r) (auto elim: is_Str.elims)

lemma top_5_endpoints_table:
  assumes "is_table df"
  shows "top_5_endpoints L df
         = Inr (head 5 (sort_values L (endpoint_keys (column df ''request''))))"
proof -
  from assms obtain h t r s b d where df:
    "df = [(''host'', h), (''time'', t), (''request'', r), (''status'', s), (''bytes'', b),
           (''dt'', d)]" and r: "list_all is_Str r"
    by (rule is_table_cases)
  show ?thesis
    using is_strlike_Str [OF r]
    by (simp add: df top_5_endpoints_def endpoint_ranking_def getitem_def str_split_get1_def
        value_counts_def endpoint_keys_def column_def)
qed




section \<open>Requests over time\<close>



lemma set_unique: "set (unique xs) = set xs"
  by (induction xs) auto

lemma distinct_unique: "distinct (unique xs)"
  by (induction xs) (auto simp: set_unique)

lemma count_list_filter: "count_list xs k = length (filter (\<lambda>x. x = k) xs)"
  by (induction xs) auto

lemma count_keys_sum: "sum_list (map snd (count_keys xs)) = length xs"
proof -
  have "sum_list (map snd (count_keys xs))
      = sum_list (map (\<lambda>k. length (filter (\<lambda>x. x = k) xs)) (unique xs))"
    by (simp add: count_keys_def comp_def count_list_filter)
  also have "\<dots> = length (filter (\<lambda>x. x \<in> set (unique xs)) xs)"
    by (rule sum_bucket_counts [OF distinct_unique])
  also have "\<dots> = length xs"
    by (simp add: set_unique)
  finally show ?thesis .
qed

lemma count_keys_member:
  "(k, n) \<in> set (count_keys xs) \<longleftrightarrow> k \<in> set xs \<and> n = count_list xs k"
  by (auto simp: count_keys_def set_unique)

lemma count_dropna_second_token:
  assumes "k \<noteq> NaN"
  shows "count_list (dropna (map second_token reqs)) k
         = length (filter (\<lambda>c. second_token c = k) reqs)"
proof -
  have nn: "second_token c \<noteq> NaT" for c
    by (cases c) (auto split: list.splits)
  have "is_null (second_token c) \<longleftrightarrow> second_token c = NaN" for c
    using nn [of c] by (cases "second_token c") auto
  then have "dropna (map second_token reqs)
      = map second_token (filter (\<lambda>c. second_token c \<noteq> NaN) reqs)"
    by (simp add: dropna_def filter_map comp_def)
  then show ?thesis
    using assms by (simp add: count_list_filter filter_map comp_def conj_commute) (metis)
qed

section \<open>The keys of the endpoint ranking\<close>

text \<open>
  Claim C3, as the code has it.  On every log table the endpoint ranking is the head
  of the sorted counts of the second tokens: a key is a second white-space-delimited
  token of some request, its count is the number of requests with that second token,
  and the counts add up to the number of requests that have a second token.  A
  request without a second token has the key NA, which \<open>value_counts\<close> drops, so the
  record is in no count; the ranking by whole requests is reached only when the
  token extraction raises, which it does not on a column of strings.
\<close>

theorem endpoint_key_is_second_token:
  assumes "is_table df"
  shows "top_5_endpoints L df
           = Inr (head 5 (sort_values L (endpoint_keys (column df ''request''))))
     \<and> (\<forall>k n. (k, n) \<in> set (endpoint_keys (column df ''request'')) \<longleftrightarrow>
           k \<noteq> NaN \<and> k \<in> second_token ` set (column df ''request'')
           \<and> n = length (filter (\<lambda>c. second_token c = k) (column df ''request'')))
     \<and> sum_list (map snd (endpoint_keys (column df ''request'')))
           = length (filter (\<lambda>c. second_token c \<noteq> NaN) (column df ''request''))
     \<and> (\<forall>s. second_token (Str s) = (case py_split s of a # b # r \<Rightarrow> Str b | _ \<Rightarrow> NaN))"
proof -
  let ?reqs = "column df ''request''"
  have nn: "second_token c \<noteq> NaT" for c
    by (cases c) (auto split: list.splits)
  have null: "is_null (second_token c) \<longleftrightarrow> second_token c = NaN" for c
    using nn [of c] by (cases "second_token c") auto
  have keys: "(k, n) \<in> set (endpoint_keys ?reqs) \<longleftrightarrow>
      k \<noteq> NaN \<and> k \<in> second_token ` set ?reqs
      \<and> n = length (filter (\<lambda>c. second_token c = k) ?reqs)" for k n
  proof (cases "k = NaN")
    case True
    then show ?thesis
      by (auto simp: endpoint_keys_def count_keys_member dropna_def)
  next
    case False
    then show ?thesis
      unfolding endpoint_keys_def count_keys_member count_dropna_second_token [OF False]
      by (auto simp: dropna_def null)
  qed
  have "dropna (map second_token ?reqs)
      = map second_token (filter (\<lambda>c. second_token c \<noteq> NaN) ?reqs)"
    by (simp add: dropna_def filter_map comp_def null)
  then have total: "sum_list (map snd (endpoint_keys ?reqs))
      = length (filter (\<lambda>c. second_token c \<noteq> NaN) ?reqs)"
    by (simp add: endpoint_keys_def count_keys_sum)
  show ?thesis
    using top_5_endpoints_table [OF assms, of L] keys total by simp
qed

text \<open>
  The theorem at the table of three records: two requests for \<open>/a\<close> and one request
  that is \<open>GET\<close> followed by two spaces.
\<close>

theorem endpoint_key_is_second_token_gap_table:
  "is_table gap_table
   \<and> top_5_endpoints sample_lib gap_table = Inr [(Str ''/a'', 2)]
   \<and> endpoint_keys (column gap_table ''request'') = [(Str ''/a'', 2)]
   \<and> length (filter (\<lambda>c. second_token c \<noteq> NaN) (column gap_table ''request'')) = 2"
proof -
  have t: "is_table gap_table"
    by code_simp
  have k: "endpoint_keys (column gap_table ''request'') = [(Str ''/a'', 2)]"
    by code_simp
  have e: "top_5_endpoints sample_lib gap_table = Inr [(Str ''/a'', 2)]"
    by code_simp
  show ?thesis
    using endpoint_key_is_second_token [OF t, of sample_lib] t k e by simp
qed

text \<open>
  Against C3 as stated: the table loaded from the three-line file has the request
  \<open>GET\<close> with two spaces, which has no second token; the ranking holds the key
  \<open>/a\<close> only, with the count of the two other records.
\<close>

theorem request_without_second_token_is_not_ranked:
  "upload sample_lib (Some gap_log) None = (Some gap_table, Loaded 3)
   \<and> column gap_table ''request'' ! 1 = Str ''GET  ''
   \<and> py_split ''GET  '' = [''GET'']
   \<and> top_5_endpoints sample_lib gap_table = Inr [(Str ''/a'', 2)]"
  by code_simp

lemma starts_with_iff: "starts_with p s \<longleftrightarrow> (\<exists>b. s = p @ b)"
  by (induction p s rule: starts_with.induct) auto

lemma contains_iff: "contains q s \<longleftrightarrow> (\<exists>a b. s = a @ q @ b)"
proof (induction s)
  case Nil
  then show ?case by auto
next
  case (Cons c cs)
  have "(\<exists>a b. c # cs = a @ q @ b) \<longleftrightarrow> (\<exists>b. c # cs = q @ b) \<or> (\<exists>a b. cs = a @ q @ b)"
  proof
    assume "\<exists>a b. c # cs = a @ q @ b"
    then obtain a b where ab: "c # cs = a @ q @ b" by blast
    show "(\<exists>b. c # cs = q @ b) \<or> (\<exists>a b. cs = a @ q @ b)"
    proof (cases a)
      case Nil
      then show ?thesis using ab by auto
    next
      case (Cons x a')
      then show ?thesis using ab by auto
    qed
  next
    assume "(\<exists>b. c # cs = q @ b) \<or> (\<exists>a b. cs = a @ q @ b)"
    then show "\<exists>a b. c # cs = a @ q @ b"
    proof
      assume "\<exists>b. c # cs = q @ b"
      then show ?thesis by (metis append_Nil)
    next
      assume "\<exists>a b. cs = a @ q @ b"
      then show ?thesis by (metis append_Cons)
    qed
  qed
  then show ?case
    using Cons.IH by (simp add: starts_with_iff)
qed

lemma contains_ci_iff: "contains_ci q s \<longleftrightarrow> (\<exists>a b. lower s = a @ lower q @ b)"
  by (simp add: contains_ci_def contains_iff)

lemma select_rows_filter:
  assumes "length xs = n"
  shows "select_rows (map f xs) (map g [0..<n]) = map g (filter (\<lambda>i. f (xs ! i)) [0..<n])"
proof -
  have "zip (map f xs) (map g [0..<n]) = map (\<lambda>i. (f (xs ! i), g i)) [0..<n]"
    using assms by (intro nth_equalityI) simp_all
  then show ?thesis
    by (simp add: select_rows_def filter_map comp_def)
qed

lemma matching_rows_table:
  assumes "is_table df" and "plain_pattern q"
  shows "matching_rows L q df
         = Inr (filter (\<lambda>r. contains_ci q (request_of r)) (to_dict_records df))"
proof -
  from assms(1) obtain h t r s b d where df:
    "df = [(''host'', h), (''time'', t), (''request'', r), (''status'', s), (''bytes'', b),
           (''dt'', d)]" and r: "list_all is_Str r" "length r = len df"
    by (rule is_table_cases)
  have req: "request_of (row df i) = py_str L (r ! i)" if "i < len df" for i
  proof -
    have "is_Str (r ! i)"
      using r that by (simp add: list_all_length)
    then obtain x where "r ! i = Str x"
      by (cases "r ! i") auto
    then show ?thesis
      by (simp add: request_of_def row_def df)
  qed
  have "matching_rows L q df
      = Inr (select_rows (map (\<lambda>c. contains_ci q (py_str L c)) r)
               (map (row df) [0..<len df]))"
  proof -
    have "getitem df ''request'' = Inr r"
      by (simp add: df getitem_def)
    then show ?thesis
      using assms(2) by (simp add: matching_rows_def str_contains_def to_dict_records_def)
  qed
  also have "select_rows (map (\<lambda>c. contains_ci q (py_str L c)) r) (map (row df) [0..<len df])
      = map (row df) (filter (\<lambda>i. contains_ci q (py_str L (r ! i))) [0..<len df])"
    by (rule select_rows_filter [OF r(2)])
  also have "\<dots> = filter (\<lambda>r. contains_ci q (request_of r)) (map (row df) [0..<len df])"
    unfolding filter_map comp_def
    by (rule arg_cong [where f = "map (row df)"], rule filter_cong) (simp_all add: req)
  finally show ?thesis
    by (simp add: to_dict_records_def)
qed

section \<open>Search\<close>

text \<open>
  Claim C2, as the code has it.  The query is stripped of leading and trailing white
  space first.  For a stripped query without regular-expression metacharacters and
  every log table, search succeeds and returns the first fifty, in table order, of
  the records whose request contains the stripped query, letter case aside; its
  count is the number of records returned.  An empty or all-blank query and an empty
  or absent table give no results.
\<close>

theorem search_plain_query:
  assumes "is_table df" and "plain_pattern (py_strip q)"
  shows "\<exists>res. search L q (Some df) = Inr (length res, res) \<and> length res \<le> 50
      \<and> res = (if py_strip q = [] then []
               else map (clean L)
                      (take 50 (filter (\<lambda>r. contains_ci (py_strip q) (request_of r))
                                  (to_dict_records df))))
      \<and> (len df = 0 \<longrightarrow> res = [])
      \<and> search L q None = Inr (0, [])
      \<and> (\<forall>s. contains_ci (py_strip q) s \<longleftrightarrow> (\<exists>a b. lower s = a @ lower (py_strip q) @ b))"
proof -
  let ?hits = "filter (\<lambda>r. contains_ci (py_strip q) (request_of r)) (to_dict_records df)"
  let ?res = "if py_strip q = [] then [] else map (clean L) (take 50 ?hits)"
  have m: "matching_rows L (py_strip q) df = Inr ?hits"
    by (rule matching_rows_table [OF assms])
  have none: "search L q None = Inr (0, [])"
    by (simp add: search_def)
  have e: "?res = []" if "empty df"
  proof -
    from that have "len df = 0"
      by (auto simp: empty_def len_def)
    then show ?thesis
      by (simp add: to_dict_records_def)
  qed
  have s: "search L q (Some df) = Inr (length ?res, ?res)"
  proof (cases "empty df \<or> py_strip q = []")
    case True
    then show ?thesis
      using e by (auto simp: search_def)
  next
    case False
    then show ?thesis
      by (simp add: search_def m head_def Let_def)
  qed
  have "len df = 0 \<Longrightarrow> ?res = []"
    by (simp add: to_dict_records_def)
  moreover have "length ?res \<le> 50"
    by simp
  ultimately show ?thesis
    using s none contains_ci_iff by (intro exI [of _ ?res]) blast
qed

text \<open>The theorem at the query \<open>/A\<close> with a trailing space.\<close>

theorem search_plain_query_gap_table:
  "is_table gap_table
   \<and> plain_pattern (py_strip ''/A '')
   \<and> search sample_lib ''/A '' (Some gap_table) =
       Inr (2, [[(''host'', ''10.0.0.1''), (''time'', ''01/Jul/1995:04:01:44''),
                 (''request'', ''GET /a''), (''status'', ''200''), (''bytes'', ''10'')],
                [(''host'', ''10.0.0.1''), (''time'', ''nan''),
                 (''request'', ''POST /a''), (''status'', ''404''), (''bytes'', ''30'')]])"
proof -
  have t: "is_table gap_table"
    by code_simp
  have p: "plain_pattern (py_strip ''/A '')"
    by code_simp
  have s: "search sample_lib ''/A '' (Some gap_table) =
       Inr (2, [[(''host'', ''10.0.0.1''), (''time'', ''01/Jul/1995:04:01:44''),
                 (''request'', ''GET /a''), (''status'', ''200''), (''bytes'', ''10'')],
                [(''host'', ''10.0.0.1''), (''time'', ''nan''),
                 (''request'', ''POST /a''), (''status'', ''404''), (''bytes'', ''30'')]])"
    by code_simp
  show ?thesis
    using search_plain_query [OF t p, of sample_lib] t p s by simp
qed

text \<open>
  Against C2 as stated: the query \<open>get\<close> with a leading space returns two records
  whose requests do not contain it; they contain the stripped query.
\<close>

theorem search_strips_the_query:
  "search sample_lib '' get'' (Some gap_table) =
     Inr (2, [[(''host'', ''10.0.0.1''), (''time'', ''01/Jul/1995:04:01:44''),
               (''request'', ''GET /a''), (''status'', ''200''), (''bytes'', ''10'')],
              [(''host'', ''10.0.0.2''), (''time'', ''01/Jul/1995:06:01:44''),
               (''request'', ''GET  ''), (''status'', ''500''), (''bytes'', ''20'')]])
   \<and> \<not> contains_ci '' get'' ''GET /a''
   \<and> \<not> contains_ci '' get'' ''GET  ''"
  by code_simp

end
